theory Spec2Isabelle
  imports Complex_Main
begin

section \<open>The advance payment wizard of sale_advance_payment\<close>

text \<open>
  A shallow embedding of \<^verbatim>\<open>wizard/sale_advance_payment_wzd.py\<close>, the transient model
  \<^verbatim>\<open>account.voucher.wizard\<close>. The host framework (record store, currency conversion,
  payment posting) is not part of the module: what the wizard reads from it is a field of
  the environment below, and what it asks it to do is a function on that environment.

  Conventions. A database id is a positive natural number; a many2one field is an
  \<open>rec_id option\<close>, \<open>None\<close> being the empty recordset, whose \<^verbatim>\<open>.id\<close> is
  \<^verbatim>\<open>False\<close>. A monetary amount is a Python float in the source and, here, the real
  number that float stands for; the one place where the source computes with floats, a
  subtraction, is a service of the environment.
  A method that starts with an underscore in the source has the same name without it.
  Every method is modelled on one wizard record (\<^verbatim>\<open>self\<close> is a singleton, as the
  dialog creates it); the methods that loop over \<^verbatim>\<open>self\<close> also have their loop.
\<close>

subsection \<open>Data model\<close>

type_synonym rec_id = nat

type_synonym date = "nat \<times> nat \<times> nat"

datatype payment_type = Inbound | Outbound

text \<open>
  The exceptions the module can end with. \<open>ValidationError\<close> and \<open>UserError\<close> are the
  two classes the source raises itself; \<open>MissingError\<close> is what the record store raises
  when a field is read through an id that names no record.
\<close>

datatype error = ValidationError string | UserError string | MissingError

fun is_ValidationError :: "error \<Rightarrow> bool" where
  "is_ValidationError (ValidationError m) = True"
| "is_ValidationError (UserError m) = False"
| "is_ValidationError MissingError = False"

text \<open>
  A sale order as the wizard reads it. A dotted path through a related record is one
  field: \<open>so_pricelist_currency_id\<close> is \<^verbatim>\<open>sale.pricelist_id.currency_id.id\<close> and
  \<open>so_commercial_partner_id\<close> is
  \<^verbatim>\<open>sale.partner_invoice_id.commercial_partner_id.id\<close>.
\<close>

record sale_order =
  so_name :: string
  so_amount_total :: real
  so_amount_residual :: real
  so_pricelist_currency_id :: "rec_id option"
  so_currency_id :: "rec_id option"
  so_company_id :: "rec_id option"
  so_commercial_partner_id :: "rec_id option"
  so_account_payment_ids :: "rec_id list"

text \<open>The fields of the wizard, under the names of the source.\<close>

record wizard =
  order_id :: "rec_id option"
  journal_id :: "rec_id option"
  payment_method_line_id :: "rec_id option"
  available_payment_method_line_ids :: "rec_id list"
  journal_currency_id :: "rec_id option"
  currency_id :: "rec_id option"
  amount_total :: real
  amount_advance :: real
  date :: "date option"
  currency_amount :: real
  payment_ref :: "string option"
  payment_type :: payment_type

text \<open>
  A journal as the wizard reads it: \<open>jr_currency_id\<close> is
  \<^verbatim>\<open>journal.currency_id.id\<close> and \<open>jr_company_currency_id\<close> is
  \<^verbatim>\<open>journal.company_id.currency_id.id\<close>.
\<close>

record journal =
  jr_currency_id :: "rec_id option"
  jr_company_currency_id :: "rec_id option"

text \<open>The dictionary \<^verbatim>\<open>_prepare_payment_vals\<close> returns, one field for each key.\<close>

record payment_vals =
  pv_date :: "date option"
  pv_amount :: real
  pv_payment_type :: payment_type
  pv_partner_type :: string
  pv_ref :: string
  pv_journal_id :: "rec_id option"
  pv_currency_id :: "rec_id option"
  pv_partner_id :: "rec_id option"
  pv_payment_method_line_id :: "rec_id option"

text \<open>
  A payment of the host's \<^verbatim>\<open>account.payment\<close> table: the values it was created from
  and whether it has been posted. The payment with id \<open>n\<close> is the \<open>n\<close>-th of the table.
\<close>

datatype payment_state = Draft | Posted

record account_payment =
  pay_vals :: payment_vals
  pay_state :: payment_state

text \<open>The values a dictionary of defaults holds.\<close>

datatype val = VBool bool | VId rec_id | VFloat real | VStr string | VDate date

text \<open>
  The part of \<^verbatim>\<open>self.env\<close> the wizard uses. The context: \<open>ctx_active_id\<close> is
  \<open>None\<close> when the key \<^verbatim>\<open>active_id\<close> is absent or holds \<^verbatim>\<open>False\<close>, and
  \<open>ctx_active_ids\<close> is \<open>None\<close> when the key \<^verbatim>\<open>active_ids\<close> is absent. The
  tables of sale orders, journals and payments. The services of the host: the currency
  conversion \<^verbatim>\<open>_convert\<close> (from currency, amount, to currency, company, date), the clock
  \<^verbatim>\<open>fields.Date.today\<close>, the journal's \<^verbatim>\<open>_get_available_payment_method_lines\<close>,
  the code of a payment method line, \<^verbatim>\<open>default_get\<close> of the parent class, and
  \<open>float_sub\<close>, Python's subtraction of two floats (the difference, rounded to a float).
\<close>

record env =
  ctx_active_id :: "rec_id option"
  ctx_active_ids :: "rec_id list option"
  sale_orders :: "rec_id \<rightharpoonup> sale_order"
  journals :: "rec_id \<rightharpoonup> journal"
  account_payments :: "account_payment list"
  convert :: "rec_id option \<Rightarrow> real \<Rightarrow> rec_id option \<Rightarrow> rec_id option \<Rightarrow> date \<Rightarrow> real"
  today :: date
  get_available_payment_method_lines :: "rec_id option \<Rightarrow> payment_type \<Rightarrow> rec_id list"
  line_code :: "rec_id \<Rightarrow> string"
  super_default_get :: "string list \<Rightarrow> (string \<rightharpoonup> val)"
  float_sub :: "real \<Rightarrow> real \<Rightarrow> real"

subsection \<open>Reading a field through a many2one\<close>

text \<open>
  Reading a field of the empty recordset gives the field's null value; reading it through
  an id with no record raises \<open>MissingError\<close>.
\<close>

definition read_order :: "env \<Rightarrow> rec_id option \<Rightarrow> (sale_order \<Rightarrow> 'a) \<Rightarrow> 'a \<Rightarrow> error + 'a" where
  "read_order e oid fld null =
     (case oid of
        None \<Rightarrow> Inr null
      | Some i \<Rightarrow> (case sale_orders e i of None \<Rightarrow> Inl MissingError | Some so \<Rightarrow> Inr (fld so)))"

subsection \<open>Comparing amounts\<close>

text \<open>
  Modelled from the spec: \<^verbatim>\<open>float_compare\<close> is imported from the host framework's
  \<^verbatim>\<open>odoo.tools\<close> and is absent from the sources. The amounts are "compared at 2 decimal
  digits of precision": each is rounded to \<open>precision_digits\<close> decimals, a half going away
  from zero, and the result is the sign of the difference of the rounded values.
\<close>

definition float_round :: "real \<Rightarrow> nat \<Rightarrow> real" where
  "float_round v precision_digits =
     sgn v * of_int \<lfloor>\<bar>v\<bar> * 10 ^ precision_digits + 1 / 2\<rfloor> / 10 ^ precision_digits"

definition float_compare :: "real \<Rightarrow> real \<Rightarrow> nat \<Rightarrow> int" where
  "float_compare value1 value2 precision_digits =
     (let delta = float_round value1 precision_digits - float_round value2 precision_digits
      in if delta = 0 then 0 else if delta < 0 then - 1 else 1)"

subsection \<open>The constraint on the advanced amount\<close>

definition check_amount :: "env \<Rightarrow> wizard \<Rightarrow> error + unit" where
  "check_amount e self =
     (if amount_advance self \<le> 0
      then Inl (ValidationError ''Amount of advance must be positive.'')
      else if ctx_active_id e \<noteq> None
      then (if payment_type self = Inbound
            then (case read_order e (order_id self) so_amount_residual 0 of
                    Inl err \<Rightarrow> Inl err
                  | Inr residual \<Rightarrow>
                      if float_compare (currency_amount self) residual 2 > 0
                      then Inl (ValidationError
                        ''Inbound amount of advance is greater than residual amount on sale'')
                      else Inr ())
            else (case read_order e (order_id self) so_amount_total 0 of
                    Inl err \<Rightarrow> Inl err
                  | Inr order_total \<Rightarrow>
                      let paid_in_advanced = float_sub e order_total (amount_total self)
                      in if float_compare (currency_amount self) paid_in_advanced 2 > 0
                         then Inl (ValidationError
                           ''Outbound amount of advance is greater than the advanced paid amount'')
                         else Inr ()))
      else Inr ())"

subsection \<open>Python's \<^verbatim>\<open>or\<close> on ids, and the context's list of active ids\<close>

definition id_or :: "rec_id option \<Rightarrow> rec_id option \<Rightarrow> rec_id option" where
  "id_or a b = (case a of None \<Rightarrow> b | Some i \<Rightarrow> Some i)"

definition active_ids :: "env \<Rightarrow> rec_id list" where
  "active_ids e = (case ctx_active_ids e of None \<Rightarrow> [] | Some ids \<Rightarrow> ids)"

subsection \<open>The computed fields\<close>

text \<open>
  Each compute method is a loop over the records of \<^verbatim>\<open>self\<close>; the function with the
  suffix \<open>_one\<close> is the body of the loop, and \<open>for_each\<close> stops at the first record
  that raises.
\<close>

fun for_each :: "('a \<Rightarrow> error + 'a) \<Rightarrow> 'a list \<Rightarrow> error + 'a list" where
  "for_each f [] = Inr []"
| "for_each f (x # xs) =
     (case f x of
        Inl err \<Rightarrow> Inl err
      | Inr y \<Rightarrow> (case for_each f xs of Inl err \<Rightarrow> Inl err | Inr ys \<Rightarrow> Inr (y # ys)))"

definition compute_payment_method_line_id_one :: "wizard \<Rightarrow> wizard" where
  "compute_payment_method_line_id_one pay =
     (let available_payment_method_lines = available_payment_method_line_ids pay
      in if (case payment_method_line_id pay of
               None \<Rightarrow> False
             | Some l \<Rightarrow> l \<in> set available_payment_method_lines)
         then pay\<lparr>payment_method_line_id := payment_method_line_id pay\<rparr>
         else (case available_payment_method_lines of
                 l # _ \<Rightarrow> pay\<lparr>payment_method_line_id := Some l\<rparr>
               | [] \<Rightarrow> pay\<lparr>payment_method_line_id := None\<rparr>))"

definition compute_payment_method_line_id :: "wizard list \<Rightarrow> wizard list" where
  "compute_payment_method_line_id self = map compute_payment_method_line_id_one self"

definition get_payment_method_codes_to_exclude :: "wizard \<Rightarrow> string list" where
  "get_payment_method_codes_to_exclude self = []"

definition compute_payment_method_line_fields_one :: "env \<Rightarrow> wizard \<Rightarrow> wizard" where
  "compute_payment_method_line_fields_one e pay =
     (let pay1 = pay\<lparr>available_payment_method_line_ids :=
                   get_available_payment_method_lines e (journal_id pay) (payment_type pay)\<rparr>;
          to_exclude = get_payment_method_codes_to_exclude pay1
      in if to_exclude \<noteq> []
         then pay1\<lparr>available_payment_method_line_ids :=
                filter (\<lambda>line. line_code e line \<notin> set to_exclude)
                  (available_payment_method_line_ids pay1)\<rparr>
         else pay1)"

definition compute_payment_method_line_fields :: "env \<Rightarrow> wizard list \<Rightarrow> wizard list" where
  "compute_payment_method_line_fields e self = map (compute_payment_method_line_fields_one e) self"

definition compute_get_journal_currency_one :: "env \<Rightarrow> wizard \<Rightarrow> error + wizard" where
  "compute_get_journal_currency_one e wzd =
     (case journal_id wzd of
        None \<Rightarrow> Inr (wzd\<lparr>journal_currency_id := None\<rparr>)
      | Some j \<Rightarrow>
          (case journals e j of
             None \<Rightarrow> Inl MissingError
           | Some jr \<Rightarrow>
               Inr (wzd\<lparr>journal_currency_id :=
                      id_or (jr_currency_id jr) (jr_company_currency_id jr)\<rparr>)))"

definition compute_get_journal_currency :: "env \<Rightarrow> wizard list \<Rightarrow> error + wizard list" where
  "compute_get_journal_currency e self = for_each (compute_get_journal_currency_one e) self"

definition compute_currency_amount_one :: "env \<Rightarrow> wizard \<Rightarrow> error + wizard" where
  "compute_currency_amount_one e wzd =
     (if journal_currency_id wzd \<noteq> currency_id wzd
      then (case read_order e (order_id wzd) so_company_id None of
              Inl err \<Rightarrow> Inl err
            | Inr company \<Rightarrow>
                Inr (wzd\<lparr>currency_amount :=
                       convert e (journal_currency_id wzd) (amount_advance wzd) (currency_id wzd)
                         company (case date wzd of None \<Rightarrow> today e | Some d \<Rightarrow> d)\<rparr>))
      else Inr (wzd\<lparr>currency_amount := amount_advance wzd\<rparr>))"

definition compute_currency_amount :: "env \<Rightarrow> wizard list \<Rightarrow> error + wizard list" where
  "compute_currency_amount e self = for_each (compute_currency_amount_one e) self"

subsection \<open>Defaults from the sale order\<close>

definition default_get :: "env \<Rightarrow> string list \<Rightarrow> error + (string \<rightharpoonup> val)" where
  "default_get e fields_list =
     (let res = super_default_get e fields_list;
          sale_ids = active_ids e
      in case sale_ids of
           [] \<Rightarrow> Inr res
         | sale_id # _ \<Rightarrow>
             if ''amount_total'' \<in> set fields_list
             then (case sale_orders e sale_id of
                     None \<Rightarrow> Inl MissingError
                   | Some sale \<Rightarrow>
                       Inr (res(''order_id'' \<mapsto> VId sale_id,
                                ''amount_total'' \<mapsto> VFloat (so_amount_residual sale),
                                ''currency_id'' \<mapsto>
                                  (case id_or (so_pricelist_currency_id sale) (so_currency_id sale) of
                                     None \<Rightarrow> VBool False
                                   | Some c \<Rightarrow> VId c))))
             else Inr res)"

subsection \<open>Creating and posting the payment\<close>

definition prepare_payment_vals :: "env \<Rightarrow> wizard \<Rightarrow> rec_id \<Rightarrow> error + payment_vals" where
  "prepare_payment_vals e self sale_id =
     (case sale_orders e sale_id of
        None \<Rightarrow> Inl MissingError
      | Some sale \<Rightarrow>
          let partner_id = so_commercial_partner_id sale
          in if amount_advance self < 0
             then Inl (UserError
               (''The amount to advance must always be positive. '' @
                ''Please use the payment type to indicate if this '' @
                ''is an inbound or an outbound payment.''))
             else Inr \<lparr>pv_date = date self,
                       pv_amount = amount_advance self,
                       pv_payment_type = payment_type self,
                       pv_partner_type = ''customer'',
                       pv_ref = (case payment_ref self of
                                   None \<Rightarrow> so_name sale
                                 | Some r \<Rightarrow> if r = [] then so_name sale else r),
                       pv_journal_id = journal_id self,
                       pv_currency_id = journal_currency_id self,
                       pv_partner_id = partner_id,
                       pv_payment_method_line_id = payment_method_line_id self\<rparr>)"

text \<open>
  Modelled from the spec: \<^verbatim>\<open>create\<close> and \<^verbatim>\<open>action_post\<close> of
  \<^verbatim>\<open>account.payment\<close> and the union of recordsets belong to the host framework and
  are absent from the sources. The wizard "creates and posts a payment record linked to
  the order": \<open>create\<close> appends a draft payment holding the values and returns its id,
  \<open>action_post\<close> marks the payment with that id as posted, and \<open>union_ids\<close> appends the
  ids that are not yet in the recordset.
\<close>

definition create :: "env \<Rightarrow> payment_vals \<Rightarrow> env \<times> rec_id" where
  "create e vals =
     (e\<lparr>account_payments := account_payments e @ [\<lparr>pay_vals = vals, pay_state = Draft\<rparr>]\<rparr>,
      Suc (length (account_payments e)))"

definition action_post :: "env \<Rightarrow> rec_id \<Rightarrow> env" where
  "action_post e payment =
     (if 0 < payment \<and> payment \<le> length (account_payments e)
      then e\<lparr>account_payments :=
             (account_payments e)[payment - 1 :=
                (account_payments e ! (payment - 1))\<lparr>pay_state := Posted\<rparr>]\<rparr>
      else e)"

definition union_ids :: "rec_id list \<Rightarrow> rec_id list \<Rightarrow> rec_id list" where
  "union_ids xs ys = xs @ filter (\<lambda>y. y \<notin> set xs) ys"

definition act_window_close :: "(string \<times> string) list" where
  "act_window_close = [(''type'', ''ir.actions.act_window_close'')]"

definition make_advance_payment :: "env \<Rightarrow> wizard \<Rightarrow> error + env \<times> (string \<times> string) list" where
  "make_advance_payment e self =
     (let sale_ids = active_ids e
      in case sale_ids of
           [] \<Rightarrow> Inr (e, act_window_close)
         | sale_id # _ \<Rightarrow>
             (case prepare_payment_vals e self sale_id of
                Inl err \<Rightarrow> Inl err
              | Inr payment_vals \<Rightarrow>
                  let (e1, payment) = create e payment_vals
                  in (case sale_orders e1 sale_id of
                        None \<Rightarrow> Inl MissingError
                      | Some sale \<Rightarrow>
                          let e2 = e1\<lparr>sale_orders := (sale_orders e1)(sale_id \<mapsto>
                                     sale\<lparr>so_account_payment_ids :=
                                       union_ids (so_account_payment_ids sale) [payment]\<rparr>)\<rparr>;
                              e3 = action_post e2 payment
                          in Inr (e3, act_window_close))))"

subsection \<open>A concrete database\<close>

text \<open>
  Sale order 5 of 100.00, of which 40.00 remain to be paid, opened from its form (both
  context keys name it); journal 3 has no currency of its own; the conversion doubles the
  amount; no payment has been registered yet. The amounts of this database are whole
  numbers, whose difference is a float: the subtraction of floats is exact on them.
\<close>

definition demo_order :: sale_order where
  "demo_order =
     \<lparr>so_name = ''S00005'', so_amount_total = 100, so_amount_residual = 40,
      so_pricelist_currency_id = Some 2, so_currency_id = Some 1, so_company_id = Some 1,
      so_commercial_partner_id = Some 7, so_account_payment_ids = []\<rparr>"

definition demo_journal :: journal where
  "demo_journal = \<lparr>jr_currency_id = None, jr_company_currency_id = Some 1\<rparr>"

definition demo_env :: env where
  "demo_env =
     \<lparr>ctx_active_id = Some 5, ctx_active_ids = Some [5],
      sale_orders = [5 \<mapsto> demo_order],
      journals = [3 \<mapsto> demo_journal],
      account_payments = [],
      convert = (\<lambda>from_currency amount to_currency company d. amount * 2),
      today = (2024, 1, 15),
      get_available_payment_method_lines =
        (\<lambda>j t. case t of Inbound \<Rightarrow> [11, 12] | Outbound \<Rightarrow> [13]),
      line_code = (\<lambda>l. ''manual''),
      super_default_get = (\<lambda>fields_list. [''payment_type'' \<mapsto> VStr ''inbound'']),
      float_sub = (\<lambda>a b. a - b)\<rparr>"

definition demo_wizard :: wizard where
  "demo_wizard =
     \<lparr>order_id = Some 5, journal_id = Some 3, payment_method_line_id = Some 11,
      available_payment_method_line_ids = [11, 12], journal_currency_id = Some 1,
      currency_id = Some 1, amount_total = 40, amount_advance = 30, date = Some (2024, 1, 10),
      currency_amount = 30, payment_ref = None, payment_type = Inbound\<rparr>"

section \<open>Auxiliary facts\<close>

lemma float_compare_pos_iff:
  "0 < float_compare value1 value2 d \<longleftrightarrow> float_round value2 d < float_round value1 d"
  by (simp add: float_compare_def Let_def)

lemma float_round_cents: "float_round (1234567 / 1000) 2 = 123457 / 100"
  by (simp add: float_round_def)

lemma read_order_Inl: "read_order e oid fld null = Inl err \<Longrightarrow> err = MissingError"
  by (simp add: read_order_def split: option.splits)

lemma check_amount_Inl:
  assumes "check_amount e self = Inl err" and "err \<noteq> MissingError"
  shows "is_ValidationError err"
proof (cases "amount_advance self \<le> 0")
  case True
  with assms show ?thesis by (auto simp: check_amount_def)
next
  case False
  show ?thesis
  proof (cases "payment_type self")
    case Inbound
    with False assms show ?thesis
      by (auto simp: check_amount_def split: if_splits sum.splits dest: read_order_Inl)
  next
    case Outbound
    with False assms show ?thesis
      by (auto simp: check_amount_def Let_def split: if_splits sum.splits dest: read_order_Inl)
  qed
qed

lemma check_amount_passed: "check_amount e self = Inr () \<Longrightarrow> 0 \<le> amount_advance self"
  by (simp add: check_amount_def split: if_splits)

lemma prepare_payment_vals_Inl:
  assumes "prepare_payment_vals e self sale_id = Inl err" and "err \<noteq> MissingError"
  shows "amount_advance self < 0 \<and> (\<exists>m. err = UserError m)"
  using assms by (auto simp: prepare_payment_vals_def Let_def split: option.splits if_splits)

lemma prepare_payment_vals_negative:
  assumes "amount_advance self < 0" and "sale_orders e sale_id \<noteq> None"
  shows "\<exists>m. prepare_payment_vals e self sale_id = Inl (UserError m)"
  using assms by (auto simp: prepare_payment_vals_def Let_def)

lemma make_advance_payment_Inl:
  assumes "make_advance_payment e self = Inl err" and "err \<noteq> MissingError"
  shows "amount_advance self < 0 \<and> (\<exists>m. err = UserError m)"
proof (cases "active_ids e")
  case Nil
  with assms show ?thesis by (simp add: make_advance_payment_def)
next
  case (Cons sale_id rest)
  show ?thesis
  proof (cases "prepare_payment_vals e self sale_id")
    case (Inl err')
    with Cons assms have "err' = err"
      by (simp add: make_advance_payment_def)
    with Inl assms(2) show ?thesis
      by (simp add: prepare_payment_vals_Inl)
  next
    case (Inr vals)
    with Cons assms show ?thesis
      by (auto simp: make_advance_payment_def create_def Let_def split: option.splits)
  qed
qed

lemma union_ids_member: "y \<in> set (union_ids xs [y])"
  by (simp add: union_ids_def)

lemma union_ids_keeps: "set xs \<subseteq> set (union_ids xs ys)"
  by (simp add: union_ids_def)

text \<open>The loop of a compute method runs its body on each record, in place.\<close>

lemma for_each_length: "for_each f xs = Inr ys \<Longrightarrow> length ys = length xs"
  by (induction xs arbitrary: ys) (auto split: sum.splits)

lemma for_each_nth:
  "for_each f xs = Inr ys \<Longrightarrow> i < length xs \<Longrightarrow> f (xs ! i) = Inr (ys ! i)"
proof (induction xs arbitrary: ys i)
  case Nil
  then show ?case by simp
next
  case (Cons x xs)
  then show ?case
    by (cases i) (auto split: sum.splits)
qed

lemma for_each_total:
  "(\<And>x. x \<in> set xs \<Longrightarrow> \<exists>y. f x = Inr y) \<Longrightarrow> \<exists>ys. for_each f xs = Inr ys"
proof (induction xs)
  case Nil
  then show ?case by simp
next
  case (Cons x xs)
  from Cons.prems obtain y where y: "f x = Inr y" by force
  from Cons obtain ys where "for_each f xs = Inr ys" by force
  with y show ?case by simp
qed

lemma for_each_map:
  "(\<And>x. x \<in> set xs \<Longrightarrow> f x = Inr (g x)) \<Longrightarrow> for_each f xs = Inr (map g xs)"
  by (induction xs) simp_all

lemma currency_amount_of_record:
  assumes "journal_currency_id wzd \<noteq> currency_id wzd \<longrightarrow>
      (\<forall>k. order_id wzd = Some k \<longrightarrow> sale_orders e k \<noteq> None)"
  shows "compute_currency_amount_one e wzd =
     Inr (wzd\<lparr>currency_amount :=
            (if journal_currency_id wzd = currency_id wzd then amount_advance wzd
             else convert e (journal_currency_id wzd) (amount_advance wzd) (currency_id wzd)
                    (Option.bind (order_id wzd) (\<lambda>k. Option.bind (sale_orders e k) so_company_id))
                    (case date wzd of None \<Rightarrow> today e | Some d \<Rightarrow> d))\<rparr>)"
  using assms
  by (auto simp: compute_currency_amount_one_def read_order_def split: option.splits)

lemma compute_currency_amount_nth:
  "compute_currency_amount e self = Inr self' \<Longrightarrow> i < length self \<Longrightarrow>
     compute_currency_amount_one e (self ! i) = Inr (self' ! i)"
  unfolding compute_currency_amount_def by (rule for_each_nth)

lemma compute_get_journal_currency_nth:
  "compute_get_journal_currency e self = Inr self' \<Longrightarrow> i < length self \<Longrightarrow>
     compute_get_journal_currency_one e (self ! i) = Inr (self' ! i)"
  unfolding compute_get_journal_currency_def by (rule for_each_nth)

lemma compute_payment_method_line_fields_available:
  "available_payment_method_line_ids (compute_payment_method_line_fields_one e pay) =
     get_available_payment_method_lines e (journal_id pay) (payment_type pay)"
  by (simp add: compute_payment_method_line_fields_one_def get_payment_method_codes_to_exclude_def)

section \<open>Properties\<close>

subsection \<open>The constraint\<close>

text \<open>
  C1, as amended. For a wizard of payment type inbound saved in a context that carries an
  \<^verbatim>\<open>active_id\<close>, saving raises a validation error when \<open>currency_amount\<close> exceeds the
  residual amount of the wizard's order, compared at 2 decimal digits, and raises nothing
  when it does not and \<open>amount_advance\<close> is positive. In a context without
  \<^verbatim>\<open>active_id\<close> the amounts are not compared: only an \<open>amount_advance\<close> that is not
  positive is rejected.
\<close>

theorem check_amount_inbound:
  assumes "payment_type self = Inbound"
    and "read_order e (order_id self) so_amount_residual 0 = Inr residual"
  shows "check_amount e self =
     (if amount_advance self \<le> 0
      then Inl (ValidationError ''Amount of advance must be positive.'')
      else if ctx_active_id e \<noteq> None \<and> 0 < float_compare (currency_amount self) residual 2
      then Inl (ValidationError
        ''Inbound amount of advance is greater than residual amount on sale'')
      else Inr ())"
  using assms by (simp add: check_amount_def)

text \<open>
  The claim as first stated speaks of every inbound wizard. Without \<^verbatim>\<open>active_id\<close> in
  the context, an advance of 90.00 on an order with 40.00 left to pay is saved.
\<close>

theorem check_amount_inbound_counterexample:
  "payment_type (demo_wizard\<lparr>amount_advance := 90, currency_amount := 90\<rparr>) = Inbound
   \<and> read_order (demo_env\<lparr>ctx_active_id := None\<rparr>)
       (order_id (demo_wizard\<lparr>amount_advance := 90, currency_amount := 90\<rparr>))
       so_amount_residual 0 = Inr 40
   \<and> 0 < float_compare (currency_amount (demo_wizard\<lparr>amount_advance := 90, currency_amount := 90\<rparr>)) 40 2
   \<and> check_amount (demo_env\<lparr>ctx_active_id := None\<rparr>)
       (demo_wizard\<lparr>amount_advance := 90, currency_amount := 90\<rparr>) = Inr ()"
  by (simp add: check_amount_def read_order_def demo_env_def demo_wizard_def demo_order_def
      float_compare_def float_round_def)

theorem check_amount_inbound_witness:
  "payment_type (demo_wizard\<lparr>amount_advance := 90, currency_amount := 90\<rparr>) = Inbound
   \<and> read_order demo_env (order_id (demo_wizard\<lparr>amount_advance := 90, currency_amount := 90\<rparr>))
        so_amount_residual 0 = Inr 40
   \<and> check_amount demo_env (demo_wizard\<lparr>amount_advance := 90, currency_amount := 90\<rparr>) =
        Inl (ValidationError ''Inbound amount of advance is greater than residual amount on sale'')
   \<and> check_amount demo_env (demo_wizard\<lparr>amount_advance := 40, currency_amount := 40.004\<rparr>) =
        Inr ()"
proof -
  let ?w = "demo_wizard\<lparr>amount_advance := 90, currency_amount := 90\<rparr>"
  let ?v = "demo_wizard\<lparr>amount_advance := 40, currency_amount := 40.004\<rparr>"
  have a: "payment_type ?w = Inbound" "payment_type ?v = Inbound"
    by (simp_all add: demo_wizard_def)
  have c: "read_order demo_env (order_id ?w) so_amount_residual 0 = Inr 40"
    "read_order demo_env (order_id ?v) so_amount_residual 0 = Inr 40"
    by (simp_all add: read_order_def demo_env_def demo_wizard_def demo_order_def)
  have d: "ctx_active_id demo_env \<noteq> None \<and> 0 < float_compare (currency_amount ?w) 40 2"
    by (simp add: demo_env_def float_compare_def float_round_def)
  have f: "\<not> 0 < float_compare (currency_amount ?v) 40 2"
    by (simp add: float_compare_def float_round_def)
  from check_amount_inbound [OF a(1) c(1)] d
  have "check_amount demo_env ?w =
          Inl (ValidationError ''Inbound amount of advance is greater than residual amount on sale'')"
    by simp
  moreover from check_amount_inbound [OF a(2) c(2)] f
  have "check_amount demo_env ?v = Inr ()"
    by simp
  ultimately show ?thesis using a c by blast
qed




text \<open>
  C3. Saving a wizard whose \<open>amount_advance\<close> is zero or negative raises a validation
  error, whatever the payment direction and the context; the constraint passes only when
  \<open>amount_advance\<close> is positive.
\<close>

theorem check_amount_positive:
  "(amount_advance self \<le> 0 \<longrightarrow>
      check_amount e self = Inl (ValidationError ''Amount of advance must be positive.''))
   \<and> (check_amount e self = Inr () \<longrightarrow> 0 < amount_advance self)"
  by (simp add: check_amount_def)

theorem check_amount_positive_witness:
  "amount_advance (demo_wizard\<lparr>amount_advance := 0\<rparr>) \<le> 0
   \<and> check_amount demo_env (demo_wizard\<lparr>amount_advance := 0\<rparr>) =
       Inl (ValidationError ''Amount of advance must be positive.'')
   \<and> check_amount demo_env demo_wizard = Inr ()
   \<and> 0 < amount_advance demo_wizard"
proof -
  have ok: "check_amount demo_env demo_wizard = Inr ()"
    by (simp add: check_amount_def read_order_def demo_env_def demo_wizard_def demo_order_def
        float_compare_def float_round_def)
  have low: "amount_advance (demo_wizard\<lparr>amount_advance := 0\<rparr>) \<le> 0"
    by simp
  from check_amount_positive [of "demo_wizard\<lparr>amount_advance := 0\<rparr>" demo_env] low
  have "check_amount demo_env (demo_wizard\<lparr>amount_advance := 0\<rparr>) =
          Inl (ValidationError ''Amount of advance must be positive.'')"
    by blast
  moreover from check_amount_positive [of demo_wizard demo_env] ok
  have "0 < amount_advance demo_wizard"
    by blast
  ultimately show ?thesis using ok low by blast
qed

text \<open>
  C4, as amended. Every error about the amount that \<open>check_amount\<close> raises is a
  \<open>ValidationError\<close>. The only other error about the amount is the \<open>UserError\<close> that
  \<open>prepare_payment_vals\<close>, and \<open>make_advance_payment\<close> through it, raises when
  \<open>amount_advance\<close> is negative. (An error that is not about the amount is the
  \<open>MissingError\<close> of the record store.)
\<close>

theorem amount_error_classes:
  "(check_amount e self = Inl err \<longrightarrow> err \<noteq> MissingError \<longrightarrow> is_ValidationError err)
   \<and> (prepare_payment_vals e self sale_id = Inl err \<longrightarrow> err \<noteq> MissingError \<longrightarrow>
        amount_advance self < 0 \<and> (\<exists>m. err = UserError m))
   \<and> (amount_advance self < 0 \<longrightarrow> sale_orders e sale_id \<noteq> None \<longrightarrow>
        (\<exists>m. prepare_payment_vals e self sale_id = Inl (UserError m)))
   \<and> (amount_advance self < 0 \<longrightarrow> sale_orders e sale_id \<noteq> None \<longrightarrow>
        active_ids e = sale_id # rest \<longrightarrow>
        (\<exists>m. make_advance_payment e self = Inl (UserError m)))
   \<and> (make_advance_payment e self = Inl err \<longrightarrow> err \<noteq> MissingError \<longrightarrow>
        amount_advance self < 0 \<and> (\<exists>m. err = UserError m))"
proof (intro conjI impI)
  assume "check_amount e self = Inl err" "err \<noteq> MissingError"
  then show "is_ValidationError err" by (rule check_amount_Inl)
next
  assume "prepare_payment_vals e self sale_id = Inl err" "err \<noteq> MissingError"
  then show "amount_advance self < 0" by (simp add: prepare_payment_vals_Inl)
next
  assume "prepare_payment_vals e self sale_id = Inl err" "err \<noteq> MissingError"
  then show "\<exists>m. err = UserError m" by (simp add: prepare_payment_vals_Inl)
next
  assume "amount_advance self < 0" "sale_orders e sale_id \<noteq> None"
  then show "\<exists>m. prepare_payment_vals e self sale_id = Inl (UserError m)"
    by (rule prepare_payment_vals_negative)
next
  assume neg: "amount_advance self < 0" and so: "sale_orders e sale_id \<noteq> None"
    and ids: "active_ids e = sale_id # rest"
  from prepare_payment_vals_negative [OF neg so]
  obtain m where "prepare_payment_vals e self sale_id = Inl (UserError m)" ..
  with ids have "make_advance_payment e self = Inl (UserError m)"
    by (simp add: make_advance_payment_def)
  then show "\<exists>m. make_advance_payment e self = Inl (UserError m)" ..
next
  assume "make_advance_payment e self = Inl err" "err \<noteq> MissingError"
  then show "amount_advance self < 0" by (simp add: make_advance_payment_Inl)
next
  assume "make_advance_payment e self = Inl err" "err \<noteq> MissingError"
  then show "\<exists>m. err = UserError m" by (simp add: make_advance_payment_Inl)
qed

text \<open>
  The claim as first stated allows one class only. A negative advance makes
  \<open>prepare_payment_vals\<close> raise an error that is not a \<open>ValidationError\<close>.
\<close>

theorem prepare_payment_vals_counterexample:
  "prepare_payment_vals demo_env (demo_wizard\<lparr>amount_advance := - 1\<rparr>) 5 =
     Inl (UserError
       (''The amount to advance must always be positive. '' @
        ''Please use the payment type to indicate if this '' @
        ''is an inbound or an outbound payment.''))
   \<and> \<not> is_ValidationError (UserError
       (''The amount to advance must always be positive. '' @
        ''Please use the payment type to indicate if this '' @
        ''is an inbound or an outbound payment.''))"
  by (simp add: prepare_payment_vals_def demo_env_def demo_wizard_def)

theorem amount_error_classes_witness:
  "check_amount demo_env (demo_wizard\<lparr>amount_advance := 0\<rparr>) =
     Inl (ValidationError ''Amount of advance must be positive.'')
   \<and> is_ValidationError (ValidationError ''Amount of advance must be positive.'')
   \<and> amount_advance (demo_wizard\<lparr>amount_advance := - 1\<rparr>) < 0
   \<and> sale_orders demo_env 5 \<noteq> None
   \<and> active_ids demo_env = [5]
   \<and> (\<exists>m. make_advance_payment demo_env (demo_wizard\<lparr>amount_advance := - 1\<rparr>) = Inl (UserError m))"
proof -
  have a: "check_amount demo_env (demo_wizard\<lparr>amount_advance := 0\<rparr>) =
      Inl (ValidationError ''Amount of advance must be positive.'')"
    by (simp add: check_amount_def)
  have b: "ValidationError ''Amount of advance must be positive.'' \<noteq> MissingError"
    by simp
  have c: "amount_advance (demo_wizard\<lparr>amount_advance := - 1\<rparr>) < 0"
    by simp
  have d: "sale_orders demo_env 5 \<noteq> None"
    by (simp add: demo_env_def)
  have f: "active_ids demo_env = 5 # []"
    by (simp add: active_ids_def demo_env_def)
  from amount_error_classes [of demo_env "demo_wizard\<lparr>amount_advance := 0\<rparr>"
      "ValidationError ''Amount of advance must be positive.''"] a b
  have "is_ValidationError (ValidationError ''Amount of advance must be positive.'')"
    by blast
  moreover
  from amount_error_classes [of demo_env "demo_wizard\<lparr>amount_advance := - 1\<rparr>" _ 5 "[]"] c d f
  have "\<exists>m. make_advance_payment demo_env (demo_wizard\<lparr>amount_advance := - 1\<rparr>) = Inl (UserError m)"
    by blast
  ultimately show ?thesis using a c d f by blast
qed


subsection \<open>Creating the payment\<close>

text \<open>
  C5. A wizard whose button is pressed has been saved, so it has passed \<open>check_amount\<close>
  and its \<open>amount_advance\<close> is positive (\<open>check_amount_passed\<close>); the statement asks
  only that it is not negative.
  When the context's \<^verbatim>\<open>active_ids\<close> is not empty and its first id names a sale order,
  \<open>make_advance_payment\<close> adds exactly one payment to the table, built from the values of
  \<open>prepare_payment_vals\<close> (date, \<open>amount_advance\<close>, payment type, partner type customer,
  the wizard's reference or else the name of the sale, journal, journal currency, the
  commercial partner of the sale's invoice partner, payment method line) and posted, adds
  the id of that payment to the payments of that sale order, changes nothing else, and
  returns the action that closes the window.
\<close>

theorem make_advance_payment_creates:
  assumes "active_ids e = sale_id # rest"
    and "sale_orders e sale_id = Some sale"
    and "0 \<le> amount_advance self"
  shows "make_advance_payment e self =
     Inr (e\<lparr>account_payments := account_payments e @
               [\<lparr>pay_vals =
                   \<lparr>pv_date = date self,
                    pv_amount = amount_advance self,
                    pv_payment_type = payment_type self,
                    pv_partner_type = ''customer'',
                    pv_ref = (if payment_ref self = None \<or> payment_ref self = Some []
                              then so_name sale else the (payment_ref self)),
                    pv_journal_id = journal_id self,
                    pv_currency_id = journal_currency_id self,
                    pv_partner_id = so_commercial_partner_id sale,
                    pv_payment_method_line_id = payment_method_line_id self\<rparr>,
                  pay_state = Posted\<rparr>],
            sale_orders := (sale_orders e)(sale_id \<mapsto>
               sale\<lparr>so_account_payment_ids :=
                 union_ids (so_account_payment_ids sale) [Suc (length (account_payments e))]\<rparr>)\<rparr>,
          [(''type'', ''ir.actions.act_window_close'')])"
  using assms
  by (simp add: make_advance_payment_def prepare_payment_vals_def create_def action_post_def
      act_window_close_def Let_def split: option.splits)

theorem make_advance_payment_creates_witness:
  "active_ids demo_env = [5] \<and> sale_orders demo_env 5 = Some demo_order
   \<and> 0 \<le> amount_advance demo_wizard
   \<and> (case make_advance_payment demo_env demo_wizard of
         Inl err \<Rightarrow> False
       | Inr (e', action) \<Rightarrow>
           map pay_state (account_payments e') = [Posted]
           \<and> map (pv_amount \<circ> pay_vals) (account_payments e') = [30]
           \<and> map (pv_ref \<circ> pay_vals) (account_payments e') = [''S00005'']
           \<and> map_option so_account_payment_ids (sale_orders e' 5) = Some [1]
           \<and> action = [(''type'', ''ir.actions.act_window_close'')])"
proof -
  have a: "active_ids demo_env = 5 # []"
    by (simp add: active_ids_def demo_env_def)
  have b: "sale_orders demo_env 5 = Some demo_order"
    by (simp add: demo_env_def)
  have c: "0 \<le> amount_advance demo_wizard"
    by (simp add: demo_wizard_def)
  have d: "account_payments demo_env = []"
    by (simp add: demo_env_def)
  have f: "payment_ref demo_wizard = None" "amount_advance demo_wizard = 30"
    by (simp_all add: demo_wizard_def)
  have g: "so_name demo_order = ''S00005''" "so_account_payment_ids demo_order = []"
    by (simp_all add: demo_order_def)
  show ?thesis
    using a b c
    by (simp add: make_advance_payment_creates [OF a b c] d f g union_ids_def)
qed

text \<open>
  C9. When the context's \<^verbatim>\<open>active_ids\<close> is empty or absent, \<open>make_advance_payment\<close>
  returns the environment as it was (no payment created or posted, every sale order as
  before) together with the action that closes the window.
\<close>

theorem make_advance_payment_no_active_ids:
  "active_ids e = [] \<Longrightarrow>
     make_advance_payment e self = Inr (e, [(''type'', ''ir.actions.act_window_close'')])"
  by (simp add: make_advance_payment_def act_window_close_def)

theorem make_advance_payment_no_active_ids_witness:
  "active_ids (demo_env\<lparr>ctx_active_ids := Some []\<rparr>) = []
   \<and> make_advance_payment (demo_env\<lparr>ctx_active_ids := Some []\<rparr>) demo_wizard =
       Inr (demo_env\<lparr>ctx_active_ids := Some []\<rparr>, [(''type'', ''ir.actions.act_window_close'')])"
proof -
  have a: "active_ids (demo_env\<lparr>ctx_active_ids := Some []\<rparr>) = []"
    by (simp add: active_ids_def)
  from make_advance_payment_no_active_ids [OF a] a show ?thesis
    by simp
qed


subsection \<open>Defaults\<close>

text \<open>
  C6. When the context's \<^verbatim>\<open>active_ids\<close> is not empty, its first id names a sale order
  and \<^verbatim>\<open>amount_total\<close> is among the requested fields, \<open>default_get\<close> returns the
  defaults of the parent class with \<^verbatim>\<open>order_id\<close> set to that id, \<^verbatim>\<open>amount_total\<close>
  to the residual amount of the order, and \<^verbatim>\<open>currency_id\<close> to the currency of the
  order's pricelist when there is one and to the order's own currency otherwise. When
  \<^verbatim>\<open>active_ids\<close> is empty or absent it returns the defaults of the parent class as
  they are.
\<close>

theorem default_get_from_sale:
  "(active_ids e = sale_id # rest \<longrightarrow> ''amount_total'' \<in> set fields_list \<longrightarrow>
      sale_orders e sale_id = Some sale \<longrightarrow>
      default_get e fields_list =
        Inr ((super_default_get e fields_list)
              (''order_id'' \<mapsto> VId sale_id,
               ''amount_total'' \<mapsto> VFloat (so_amount_residual sale),
               ''currency_id'' \<mapsto>
                 (case so_pricelist_currency_id sale of
                    Some c \<Rightarrow> VId c
                  | None \<Rightarrow> (case so_currency_id sale of Some c \<Rightarrow> VId c | None \<Rightarrow> VBool False)))))
   \<and> (active_ids e = [] \<longrightarrow> default_get e fields_list = Inr (super_default_get e fields_list))"
  by (simp add: default_get_def id_or_def split: option.splits)

theorem default_get_from_sale_witness:
  "active_ids demo_env = [5] \<and> ''amount_total'' \<in> set [''amount_total'', ''date'']
   \<and> sale_orders demo_env 5 = Some demo_order
   \<and> default_get demo_env [''amount_total'', ''date''] =
        Inr [''payment_type'' \<mapsto> VStr ''inbound'', ''order_id'' \<mapsto> VId 5,
             ''amount_total'' \<mapsto> VFloat 40, ''currency_id'' \<mapsto> VId 2]
   \<and> active_ids (demo_env\<lparr>ctx_active_ids := None\<rparr>) = []
   \<and> default_get (demo_env\<lparr>ctx_active_ids := None\<rparr>) [''amount_total'', ''date''] =
        Inr [''payment_type'' \<mapsto> VStr ''inbound'']"
proof -
  have a: "active_ids demo_env = 5 # []"
    by (simp add: active_ids_def demo_env_def)
  have b: "''amount_total'' \<in> set [''amount_total'', ''date'']"
    by simp
  have c: "sale_orders demo_env 5 = Some demo_order"
    by (simp add: demo_env_def)
  have d: "active_ids (demo_env\<lparr>ctx_active_ids := None\<rparr>) = []"
    by (simp add: active_ids_def)
  from default_get_from_sale [of demo_env 5 "[]" "[''amount_total'', ''date'']" demo_order] a b c
  have "default_get demo_env [''amount_total'', ''date''] =
        Inr [''payment_type'' \<mapsto> VStr ''inbound'', ''order_id'' \<mapsto> VId 5,
             ''amount_total'' \<mapsto> VFloat 40, ''currency_id'' \<mapsto> VId 2]"
    by (simp add: demo_env_def demo_order_def)
  moreover
  from default_get_from_sale [of "demo_env\<lparr>ctx_active_ids := None\<rparr>" 5 "[]"
      "[''amount_total'', ''date'']" demo_order] d
  have "default_get (demo_env\<lparr>ctx_active_ids := None\<rparr>) [''amount_total'', ''date''] =
        Inr [''payment_type'' \<mapsto> VStr ''inbound'']"
    by (simp add: demo_env_def)
  ultimately show ?thesis using a b c d by simp
qed

subsection \<open>Computed fields\<close>

text \<open>
  C7. \<open>compute_currency_amount\<close> gives every record of the recordset its
  \<open>currency_amount\<close>: \<open>amount_advance\<close> itself when \<open>journal_currency_id\<close> equals
  \<open>currency_id\<close>; otherwise the host's conversion of \<open>amount_advance\<close> from the journal
  currency to the wizard's currency, for the company of the order, at the wizard's date, or
  today when the date is not set. Every other field is as before. (The order of a record
  that needs a conversion names an existing sale order, or is empty.)
\<close>

theorem compute_currency_amount_value:
  assumes "\<forall>wzd\<in>set self. journal_currency_id wzd \<noteq> currency_id wzd \<longrightarrow>
      (\<forall>k. order_id wzd = Some k \<longrightarrow> sale_orders e k \<noteq> None)"
  shows "compute_currency_amount e self =
     Inr (map (\<lambda>wzd. wzd\<lparr>currency_amount :=
            (if journal_currency_id wzd = currency_id wzd then amount_advance wzd
             else convert e (journal_currency_id wzd) (amount_advance wzd) (currency_id wzd)
                    (Option.bind (order_id wzd) (\<lambda>k. Option.bind (sale_orders e k) so_company_id))
                    (case date wzd of None \<Rightarrow> today e | Some d \<Rightarrow> d))\<rparr>) self)"
  unfolding compute_currency_amount_def
proof (rule for_each_map)
  fix wzd
  assume "wzd \<in> set self"
  with assms have "journal_currency_id wzd \<noteq> currency_id wzd \<longrightarrow>
      (\<forall>k. order_id wzd = Some k \<longrightarrow> sale_orders e k \<noteq> None)"
    by blast
  then show "compute_currency_amount_one e wzd =
     Inr (wzd\<lparr>currency_amount :=
            (if journal_currency_id wzd = currency_id wzd then amount_advance wzd
             else convert e (journal_currency_id wzd) (amount_advance wzd) (currency_id wzd)
                    (Option.bind (order_id wzd) (\<lambda>k. Option.bind (sale_orders e k) so_company_id))
                    (case date wzd of None \<Rightarrow> today e | Some d \<Rightarrow> d))\<rparr>)"
    by (rule currency_amount_of_record)
qed

theorem compute_currency_amount_value_witness:
  "compute_currency_amount demo_env
        [demo_wizard\<lparr>amount_advance := 25\<rparr>,
         demo_wizard\<lparr>journal_currency_id := Some 2, date := None\<rparr>] =
       Inr [demo_wizard\<lparr>amount_advance := 25, currency_amount := 25\<rparr>,
            demo_wizard\<lparr>journal_currency_id := Some 2, date := None, currency_amount := 60\<rparr>]"
proof -
  let ?ws = "[demo_wizard\<lparr>amount_advance := 25\<rparr>,
              demo_wizard\<lparr>journal_currency_id := Some 2, date := None\<rparr>]"
  have a: "\<forall>wzd\<in>set ?ws. \<forall>k. order_id wzd = Some k \<longrightarrow> sale_orders demo_env k \<noteq> None"
    by (simp add: demo_wizard_def demo_env_def)
  then have b: "\<forall>wzd\<in>set ?ws. journal_currency_id wzd \<noteq> currency_id wzd \<longrightarrow>
      (\<forall>k. order_id wzd = Some k \<longrightarrow> sale_orders demo_env k \<noteq> None)"
    by blast
  have c: "convert demo_env = (\<lambda>from_currency amount to_currency company d. amount * 2)"
    "journal_currency_id demo_wizard = Some 1" "currency_id demo_wizard = Some 1"
    "amount_advance demo_wizard = 30"
    by (simp_all add: demo_env_def demo_wizard_def)
  have "compute_currency_amount demo_env ?ws =
       Inr [demo_wizard\<lparr>amount_advance := 25, currency_amount := 25\<rparr>,
            demo_wizard\<lparr>journal_currency_id := Some 2, date := None, currency_amount := 60\<rparr>]"
    by (simp add: compute_currency_amount_value [OF b] c)
  then show ?thesis .
qed

text \<open>
  C8. For every record of the recordset, recomputing \<open>payment_method_line_id\<close> keeps the
  selection when it is one of \<open>available_payment_method_line_ids\<close>, otherwise selects the
  first available line when there is one, and otherwise selects nothing; every other
  field is as before. So the selection after the recomputation is empty or one of the
  available lines.
\<close>

theorem compute_payment_method_line_id_selection:
  assumes "i < length self"
  shows "compute_payment_method_line_id self ! i =
      (self ! i)\<lparr>payment_method_line_id :=
         (if payment_method_line_id (self ! i) \<in> Some ` set (available_payment_method_line_ids (self ! i))
          then payment_method_line_id (self ! i)
          else if available_payment_method_line_ids (self ! i) \<noteq> []
          then Some (hd (available_payment_method_line_ids (self ! i)))
          else None)\<rparr>
    \<and> (payment_method_line_id (compute_payment_method_line_id self ! i) = None
       \<or> payment_method_line_id (compute_payment_method_line_id self ! i)
           \<in> Some ` set (available_payment_method_line_ids (compute_payment_method_line_id self ! i)))"
  using assms
  by (auto simp: compute_payment_method_line_id_def compute_payment_method_line_id_one_def Let_def
      split: option.splits list.splits)

theorem compute_payment_method_line_id_selection_witness:
  "(1::nat) < length [demo_wizard, demo_wizard\<lparr>payment_method_line_id := Some 99\<rparr>,
       demo_wizard\<lparr>available_payment_method_line_ids := []\<rparr>]
   \<and> map payment_method_line_id
        (compute_payment_method_line_id
           [demo_wizard, demo_wizard\<lparr>payment_method_line_id := Some 99\<rparr>,
            demo_wizard\<lparr>available_payment_method_line_ids := []\<rparr>]) = [Some 11, Some 11, None]
   \<and> compute_payment_method_line_id
        [demo_wizard, demo_wizard\<lparr>payment_method_line_id := Some 99\<rparr>,
         demo_wizard\<lparr>available_payment_method_line_ids := []\<rparr>] ! 1 =
       demo_wizard\<lparr>payment_method_line_id := Some 11\<rparr>"
proof -
  let ?ws = "[demo_wizard, demo_wizard\<lparr>payment_method_line_id := Some 99\<rparr>,
       demo_wizard\<lparr>available_payment_method_line_ids := []\<rparr>]"
  have a: "(1::nat) < length ?ws"
    by simp
  have b: "available_payment_method_line_ids demo_wizard = [11, 12]"
    by (simp add: demo_wizard_def)
  from compute_payment_method_line_id_selection [OF a] b
  have "compute_payment_method_line_id ?ws ! 1 = demo_wizard\<lparr>payment_method_line_id := Some 11\<rparr>"
    by (simp add: image_iff)
  moreover
  have "map payment_method_line_id (compute_payment_method_line_id ?ws) = [Some 11, Some 11, None]"
    by (simp add: compute_payment_method_line_id_def compute_payment_method_line_id_one_def
        demo_wizard_def)
  ultimately show ?thesis using a by simp
qed

text \<open>
  C10. \<open>compute_get_journal_currency\<close> runs over the whole recordset (every journal it
  meets being a record of the host), and for every record whose journal is set the
  computed \<open>journal_currency_id\<close> is the journal's own currency when it has one and the
  currency of the journal's company otherwise; it is therefore defined as soon as the
  company of the journal has a currency, which the host's schema requires of every company.
\<close>

theorem compute_get_journal_currency_value:
  assumes "\<forall>wzd\<in>set self. \<forall>k. journal_id wzd = Some k \<longrightarrow> journals e k \<noteq> None"
    and "i < length self"
    and "journal_id (self ! i) = Some j"
    and "journals e j = Some jr"
  shows "\<exists>self'. compute_get_journal_currency e self = Inr self'
      \<and> length self' = length self
      \<and> self' ! i = (self ! i)\<lparr>journal_currency_id :=
           (if jr_currency_id jr \<noteq> None then jr_currency_id jr else jr_company_currency_id jr)\<rparr>
      \<and> (jr_company_currency_id jr \<noteq> None \<longrightarrow> journal_currency_id (self' ! i) \<noteq> None)"
proof -
  have "\<exists>y. compute_get_journal_currency_one e wzd = Inr y" if "wzd \<in> set self" for wzd
  proof (cases "journal_id wzd")
    case None
    then show ?thesis by (simp add: compute_get_journal_currency_one_def)
  next
    case (Some k)
    with that assms(1) obtain jr' where "journals e k = Some jr'" by blast
    with Some show ?thesis by (simp add: compute_get_journal_currency_one_def)
  qed
  then obtain self' where ok: "compute_get_journal_currency e self = Inr self'"
    unfolding compute_get_journal_currency_def using for_each_total by blast
  then have len: "length self' = length self"
    unfolding compute_get_journal_currency_def by (rule for_each_length)
  from ok assms(2) have "compute_get_journal_currency_one e (self ! i) = Inr (self' ! i)"
    by (rule compute_get_journal_currency_nth)
  with assms(3,4) have val: "self' ! i = (self ! i)\<lparr>journal_currency_id :=
      (if jr_currency_id jr \<noteq> None then jr_currency_id jr else jr_company_currency_id jr)\<rparr>"
    by (auto simp: compute_get_journal_currency_one_def id_or_def split: option.splits)
  then have "jr_company_currency_id jr \<noteq> None \<longrightarrow> journal_currency_id (self' ! i) \<noteq> None"
    by simp
  with ok len val show ?thesis by blast
qed

theorem compute_get_journal_currency_value_witness:
  "journal_id ([demo_wizard\<lparr>journal_id := None\<rparr>, demo_wizard\<lparr>journal_currency_id := None\<rparr>] ! 1)
       = Some 3
   \<and> journals demo_env 3 = Some demo_journal
   \<and> jr_company_currency_id demo_journal \<noteq> None
   \<and> (\<exists>self'. compute_get_journal_currency demo_env
          [demo_wizard\<lparr>journal_id := None\<rparr>, demo_wizard\<lparr>journal_currency_id := None\<rparr>] = Inr self'
        \<and> length self' = 2
        \<and> self' ! 1 = demo_wizard\<lparr>journal_currency_id := Some 1\<rparr>)"
proof -
  let ?ws = "[demo_wizard\<lparr>journal_id := None\<rparr>, demo_wizard\<lparr>journal_currency_id := None\<rparr>]"
  have a: "\<forall>wzd\<in>set ?ws. \<forall>k. journal_id wzd = Some k \<longrightarrow> journals demo_env k \<noteq> None"
    by (simp add: demo_wizard_def demo_env_def)
  have b: "(1::nat) < length ?ws"
    by simp
  have c: "journal_id (?ws ! 1) = Some 3"
    by (simp add: demo_wizard_def)
  have d: "journals demo_env 3 = Some demo_journal"
    by (simp add: demo_env_def)
  have f: "jr_company_currency_id demo_journal \<noteq> None"
    by (simp add: demo_journal_def)
  from compute_get_journal_currency_value [OF a b c d]
  obtain self' where "compute_get_journal_currency demo_env ?ws = Inr self'"
    and "length self' = length ?ws"
    and "self' ! 1 = (?ws ! 1)\<lparr>journal_currency_id :=
           (if jr_currency_id demo_journal \<noteq> None then jr_currency_id demo_journal
            else jr_company_currency_id demo_journal)\<rparr>"
    by blast
  then have "compute_get_journal_currency demo_env ?ws = Inr self'
        \<and> length self' = 2
        \<and> self' ! 1 = demo_wizard\<lparr>journal_currency_id := Some 1\<rparr>"
    by (simp add: demo_journal_def)
  then have "\<exists>self'. compute_get_journal_currency demo_env ?ws = Inr self'
        \<and> length self' = 2
        \<and> self' ! 1 = demo_wizard\<lparr>journal_currency_id := Some 1\<rparr>" ..
  with c d f show ?thesis by blast
qed

end
